theory Spec2Isabelle
  imports Main "HOL-Library.Sublist"
begin

section \<open>The expression tree read by the renderer\<close>

text \<open>
  Modelled from the spec: \<open>ExpressionKind\<close> is declared in \<open>xpath/expression.py\<close>, which
  is not among the sources. The sixteen members below are the keys of the renderer's
  \<open>_RENDER_METHOD_NAMES\<close> table (and the rows of the spec's NodeKind table);
  \<open>OTHER_KIND\<close> stands for any further member that the table does not list.
\<close>

datatype kind =
    ANYWHERE | ATTR | CHILD | CONTAINS | DESCENDANT | EQUALITY | INVERSE | IS
  | NORMALIZED_SPACE | ONE_OF | OR | PREVIOUS_SIBLING | STRING | THIS_NODE | UNION | WHERE
  | OTHER_KIND string

text \<open>
  Modelled from the spec: \<open>Expression\<close> (a kind and an ordered argument tuple, read by the
  renderer as \<open>node.kind\<close> and \<open>node.arguments\<close>) and \<open>Literal\<close> (a wrapper around a raw
  string, read as \<open>argument.value\<close>) are declared in files that are not among the sources.
  An argument is what \<open>_convert_argument\<close> tells apart by \<open>isinstance\<close>: a nested
  Expression, a list, a plain \<open>str\<close>, a Literal, or an object of any other type.
  A Python \<open>str\<close> is a \<open>string\<close>; a \<open>char\<close> stands for the code point of the same number.
\<close>

datatype expression = Expression kind "argument list"
and argument =
    Expr expression
  | ArgList "argument list"
  | Str string
  | Lit string
  | Other

fun kind_of :: "expression \<Rightarrow> kind" where
  "kind_of (Expression k args) = k"

text \<open>
  What an argument is after resolution: a \<open>str\<close>, a list of resolved values, or \<open>None\<close>
  (\<open>_convert_argument\<close> falls off its last \<open>if\<close> for an object of any other type).
\<close>

datatype val = VStr string | VList "val list" | VNone

datatype error = KeyError | AttributeError | TypeError

record renderer =
  exact :: bool

definition Renderer :: "bool \<Rightarrow> renderer" where
  "Renderer e = \<lparr>exact = e\<rparr>"

section \<open>Python's string primitives used by the templates\<close>

abbreviation squote :: string where
  "squote \<equiv> [CHR 0x27]"

text \<open>\<open>sep.join(xs)\<close> on a list of strings.\<close>

fun join :: "string \<Rightarrow> string list \<Rightarrow> string" where
  "join sep [] = []"
| "join sep [x] = x"
| "join sep (x # y # ys) = x @ sep @ join sep (y # ys)"

definition hexdigit :: "nat \<Rightarrow> char" where
  "hexdigit n = ''0123456789abcdef'' ! (n mod 16)"

text \<open>
  \<open>repr\<close> of a \<open>str\<close>: double quotes are chosen only when the string holds a single quote
  and no double quote; the chosen quote and the backslash are escaped, tab, newline and
  carriage return are written symbolically, and the code points that are not printable
  (below 0x20, 0x7f to 0xa0, 0xad) as \<open>\xhh\<close>.
\<close>

definition repr_quote :: "string \<Rightarrow> char" where
  "repr_quote s = (if CHR 0x27 \<in> set s \<and> CHR 0x22 \<notin> set s then CHR 0x22 else CHR 0x27)"

definition repr_char :: "char \<Rightarrow> char \<Rightarrow> string" where
  "repr_char q c =
     (let n = (of_char c :: nat) in
      if c = q \<or> c = CHR 0x5C then [CHR 0x5C, c]
      else if n = 9 then [CHR 0x5C, CHR ''t'']
      else if n = 10 then [CHR 0x5C, CHR ''n'']
      else if n = 13 then [CHR 0x5C, CHR ''r'']
      else if n < 32 \<or> (127 \<le> n \<and> n \<le> 160) \<or> n = 173
        then [CHR 0x5C, CHR ''x'', hexdigit (n div 16), hexdigit n]
      else [c])"

definition repr_str :: "string \<Rightarrow> string" where
  "repr_str s = (let q = repr_quote s in [q] @ concat (map (repr_char q) s) @ [q])"

fun repr :: "val \<Rightarrow> string" where
  "repr (VStr s) = repr_str s"
| "repr (VList xs) = ''['' @ join '', '' (map repr xs) @ '']''"
| "repr VNone = ''None''"

text \<open>
  \<open>"{0}".format(x)\<close>: a \<open>str\<close> is inserted as it is, \<open>None\<close> as the text \<open>None\<close>, and a
  list as its \<open>repr\<close>. It never raises.
\<close>

fun format_val :: "val \<Rightarrow> string" where
  "format_val (VStr s) = s"
| "format_val (VList xs) = repr (VList xs)"
| "format_val VNone = ''None''"

text \<open>\<open>sep.join(xs)\<close> on resolved values: a TypeError unless every item is a \<open>str\<close>.\<close>

fun strs :: "val list \<Rightarrow> error + string list" where
  "strs [] = Inr []"
| "strs (VStr s # vs) = (case strs vs of Inl e \<Rightarrow> Inl e | Inr ss \<Rightarrow> Inr (s # ss))"
| "strs (v # vs) = Inl TypeError"

definition py_join :: "string \<Rightarrow> val list \<Rightarrow> error + string" where
  "py_join sep vs = (case strs vs of Inl e \<Rightarrow> Inl e | Inr ss \<Rightarrow> Inr (join sep ss))"

text \<open>
  The items of a value as \<open>len\<close>, indexing and \<open>for\<close> see them: the elements of a list,
  the one-character strings of a \<open>str\<close>; \<open>len(None)\<close> is a TypeError.
\<close>

fun items :: "val \<Rightarrow> error + val list" where
  "items (VList xs) = Inr xs"
| "items (VStr s) = Inr (map (\<lambda>c. VStr [c]) s)"
| "items VNone = Inl TypeError"

section \<open>The renderer\<close>

text \<open>
  Each method takes the renderer and the resolved arguments as \<open>render\<close> passes them
  (\<open>render_method(*args)\<close>); an argument list that does not fit the method's signature is
  the TypeError of the call.
\<close>

definition string_literal :: "string \<Rightarrow> string" where
  "string_literal s = squote @ s @ squote"

fun anywhere :: "'a renderer_scheme \<Rightarrow> val list \<Rightarrow> error + string" where
  "anywhere self [node] = Inr (''//'' @ format_val node)"
| "anywhere self args = Inl TypeError"

fun attribute :: "'a renderer_scheme \<Rightarrow> val list \<Rightarrow> error + string" where
  "attribute self [node, attribute_name] =
     Inr (format_val node @ ''/@'' @ format_val attribute_name)"
| "attribute self args = Inl TypeError"

fun child :: "'a renderer_scheme \<Rightarrow> val list \<Rightarrow> error + string" where
  "child self [parent, element_name] =
     Inr (format_val parent @ ''/'' @ format_val element_name)"
| "child self args = Inl TypeError"

fun contains :: "'a renderer_scheme \<Rightarrow> val list \<Rightarrow> error + string" where
  "contains self [expr, v] =
     Inr (''contains('' @ format_val expr @ '', '' @ format_val v @ '')'')"
| "contains self args = Inl TypeError"

fun descendant :: "'a renderer_scheme \<Rightarrow> val list \<Rightarrow> error + string" where
  "descendant self [parent, element_names] =
     (case items element_names of
        Inl e \<Rightarrow> Inl e
      | Inr es \<Rightarrow>
          if length es = 1 then Inr (format_val parent @ ''//'' @ format_val (es ! 0))
          else if length es > 1 then
            Inr (format_val parent @ ''//*[''
                 @ join '' | '' (map (\<lambda>e. ''self::'' @ format_val e) es) @ '']'')
          else Inr (format_val parent @ ''//*''))"
| "descendant self args = Inl TypeError"

fun equality :: "'a renderer_scheme \<Rightarrow> val list \<Rightarrow> error + string" where
  "equality self [expr1, expr2] = Inr (format_val expr1 @ '' = '' @ format_val expr2)"
| "equality self args = Inl TypeError"

fun inverse_method :: "'a renderer_scheme \<Rightarrow> val list \<Rightarrow> error + string" where
  "inverse_method self [expr] = Inr (''not('' @ format_val expr @ '')'')"
| "inverse_method self args = Inl TypeError"

fun is_method :: "'a renderer_scheme \<Rightarrow> val list \<Rightarrow> error + string" where
  "is_method self [expr1, expr2] =
     (if exact self then equality self [expr1, expr2] else contains self [expr1, expr2])"
| "is_method self args = Inl TypeError"

fun normalized_space :: "'a renderer_scheme \<Rightarrow> val list \<Rightarrow> error + string" where
  "normalized_space self [expr] = Inr (''normalize-space('' @ format_val expr @ '')'')"
| "normalized_space self args = Inl TypeError"

fun one_of :: "'a renderer_scheme \<Rightarrow> val list \<Rightarrow> error + string" where
  "one_of self (expr # vals) =
     Inr (join '' or '' (map (\<lambda>v. format_val expr @ '' = '' @ format_val v) vals))"
| "one_of self [] = Inl TypeError"

fun or_method :: "'a renderer_scheme \<Rightarrow> val list \<Rightarrow> error + string" where
  "or_method self exprs =
     (case py_join '' or '' exprs of Inl e \<Rightarrow> Inl e | Inr s \<Rightarrow> Inr (''('' @ s @ '')''))"

fun previous_sibling :: "'a renderer_scheme \<Rightarrow> val list \<Rightarrow> error + string" where
  "previous_sibling self [node, element_name] =
     Inr (format_val node @ ''/preceding-sibling::*[1]/self::'' @ format_val element_name)"
| "previous_sibling self args = Inl TypeError"

fun string_function :: "'a renderer_scheme \<Rightarrow> val list \<Rightarrow> error + string" where
  "string_function self [expr] = Inr (''string('' @ format_val expr @ '')'')"
| "string_function self args = Inl TypeError"

fun this_node :: "'a renderer_scheme \<Rightarrow> val list \<Rightarrow> error + string" where
  "this_node self [] = Inr ''.''"
| "this_node self args = Inl TypeError"

fun union_method :: "'a renderer_scheme \<Rightarrow> val list \<Rightarrow> error + string" where
  "union_method self exprs = py_join '' | '' exprs"

fun where_method :: "'a renderer_scheme \<Rightarrow> val list \<Rightarrow> error + string" where
  "where_method self (expr # predicate_exprs) =
     Inr (format_val expr
          @ join [] (map (\<lambda>predicate_expr. ''['' @ format_val predicate_expr @ '']'')
                       predicate_exprs))"
| "where_method self [] = Inl TypeError"

text \<open>The table \<open>_RENDER_METHOD_NAMES\<close>; a kind it does not list has no entry.\<close>

definition RENDER_METHOD_NAMES :: "kind \<Rightarrow> string option" where
  "RENDER_METHOD_NAMES = map_of
     [(ANYWHERE, ''_anywhere''),
      (ATTR, ''_attribute''),
      (CHILD, ''_child''),
      (CONTAINS, ''_contains''),
      (DESCENDANT, ''_descendant''),
      (EQUALITY, ''_equality''),
      (INVERSE, ''_inverse''),
      (IS, ''_is''),
      (NORMALIZED_SPACE, ''_normalized_space''),
      (ONE_OF, ''_one_of''),
      (OR, ''_or''),
      (PREVIOUS_SIBLING, ''_previous_sibling''),
      (STRING, ''_string_function''),
      (THIS_NODE, ''_this_node''),
      (UNION, ''_union''),
      (WHERE, ''_where'')]"

text \<open>\<open>getattr(self, name)\<close> for the method names the class defines.\<close>

definition getattr ::
  "string \<Rightarrow> ('a renderer_scheme \<Rightarrow> val list \<Rightarrow> error + string) option" where
  "getattr = map_of
     [(''_anywhere'', anywhere),
      (''_attribute'', attribute),
      (''_child'', child),
      (''_contains'', contains),
      (''_descendant'', descendant),
      (''_equality'', equality),
      (''_inverse'', inverse_method),
      (''_is'', is_method),
      (''_normalized_space'', normalized_space),
      (''_one_of'', one_of),
      (''_or'', or_method),
      (''_previous_sibling'', previous_sibling),
      (''_string_function'', string_function),
      (''_this_node'', this_node),
      (''_union'', union_method),
      (''_where'', where_method)]"

text \<open>
  Lines 48 to 50 of \<open>render\<close>: the table lookup (a KeyError for a kind without an entry),
  \<open>getattr\<close>, and the call with the resolved arguments.
\<close>

definition dispatch :: "'a renderer_scheme \<Rightarrow> kind \<Rightarrow> val list \<Rightarrow> error + string" where
  "dispatch self k args =
     (case RENDER_METHOD_NAMES k of
        None \<Rightarrow> Inl KeyError
      | Some render_method_name \<Rightarrow>
          (case getattr render_method_name of
             None \<Rightarrow> Inl AttributeError
           | Some render_method \<Rightarrow> render_method self args))"

text \<open>
  \<open>render\<close> resolves the arguments first, left to right, and the first exception aborts;
  \<open>convert_arguments\<close> is the list comprehension of \<open>render\<close> and of the list branch of
  \<open>_convert_argument\<close>.
\<close>

fun render :: "'a renderer_scheme \<Rightarrow> expression \<Rightarrow> error + string"
and convert_argument :: "'a renderer_scheme \<Rightarrow> argument \<Rightarrow> error + val"
and convert_arguments :: "'a renderer_scheme \<Rightarrow> argument list \<Rightarrow> error + val list"
where
  "render self (Expression k args) =
     (case convert_arguments self args of
        Inl e \<Rightarrow> Inl e
      | Inr vs \<Rightarrow> dispatch self k vs)"
| "convert_argument self (Expr e) =
     (case render self e of Inl err \<Rightarrow> Inl err | Inr s \<Rightarrow> Inr (VStr s))"
| "convert_argument self (ArgList xs) =
     (case convert_arguments self xs of Inl err \<Rightarrow> Inl err | Inr vs \<Rightarrow> Inr (VList vs))"
| "convert_argument self (Str s) = Inr (VStr (string_literal s))"
| "convert_argument self (Lit s) = Inr (VStr s)"
| "convert_argument self Other = Inr VNone"
| "convert_arguments self [] = Inr []"
| "convert_arguments self (a # as) =
     (case convert_argument self a of
        Inl err \<Rightarrow> Inl err
      | Inr v \<Rightarrow>
          (case convert_arguments self as of
             Inl err \<Rightarrow> Inl err
           | Inr vs \<Rightarrow> Inr (v # vs)))"

definition to_xpath :: "expression \<Rightarrow> bool \<Rightarrow> error + string" where
  "to_xpath node e = render (Renderer e) node"

text \<open>
  Modelled from the spec: the \<open>+\<close> operator of \<open>Expression\<close> is defined in
  \<open>xpath/expression.py\<close>, which is not among the sources. The spec: "if either operand is
  already a UNION, flatten rather than nest, so that \<open>a + b + c\<close> yields one UNION of
  three operands".
\<close>

fun operands :: "expression \<Rightarrow> argument list" where
  "operands (Expression k args) = (if k = UNION then args else [Expr (Expression k args)])"

definition union_op :: "expression \<Rightarrow> expression \<Rightarrow> expression" where
  "union_op a b = Expression UNION (operands a @ operands b)"

text \<open>
  What the call \<open>render_method(*args)\<close> accepts, kind by kind, read off the signatures
  and bodies of the methods: the number of positional parameters, \<open>str.join\<close> on the
  operands of \<open>_or\<close> and \<open>_union\<close>, and \<open>len\<close> of the second argument of \<open>_descendant\<close>.
\<close>

fun all_str :: "val list \<Rightarrow> bool" where
  "all_str [] = True"
| "all_str (VStr s # vs) = all_str vs"
| "all_str (v # vs) = False"

fun template_accepts :: "kind \<Rightarrow> val list \<Rightarrow> bool" where
  "template_accepts THIS_NODE vs = (length vs = 0)"
| "template_accepts ANYWHERE vs = (length vs = 1)"
| "template_accepts INVERSE vs = (length vs = 1)"
| "template_accepts STRING vs = (length vs = 1)"
| "template_accepts NORMALIZED_SPACE vs = (length vs = 1)"
| "template_accepts ATTR vs = (length vs = 2)"
| "template_accepts CHILD vs = (length vs = 2)"
| "template_accepts CONTAINS vs = (length vs = 2)"
| "template_accepts EQUALITY vs = (length vs = 2)"
| "template_accepts IS vs = (length vs = 2)"
| "template_accepts PREVIOUS_SIBLING vs = (length vs = 2)"
| "template_accepts DESCENDANT vs = (length vs = 2 \<and> vs ! 1 \<noteq> VNone)"
| "template_accepts ONE_OF vs = (1 \<le> length vs)"
| "template_accepts WHERE vs = (1 \<le> length vs)"
| "template_accepts OR vs = all_str vs"
| "template_accepts UNION vs = all_str vs"
| "template_accepts (OTHER_KIND n) vs = False"

section \<open>The renderer with its objects passed as state\<close>

text \<open>
  The same methods in state-passing style. A Python method can assign to the attributes
  of the objects it reaches: here the renderer \<open>self\<close> and, in \<open>render\<close> and
  \<open>_convert_argument\<close>, the node or argument it is given. Each function below returns,
  beside its result, these objects as the call leaves them, and each call a method makes
  passes on the objects the previous call returned, also when the call ends in an
  exception. The resolved arguments are strings and lists created by the call itself.
  No statement of the source assigns to an attribute, so no equation below builds a
  changed object; that the whole rendering returns the objects it was given is proved
  from these equations, not assumed.
\<close>

definition string_literal_st :: "'a renderer_scheme \<Rightarrow> string \<Rightarrow> string \<times> 'a renderer_scheme" where
  "string_literal_st self s = (squote @ s @ squote, self)"

fun anywhere_st :: "'a renderer_scheme \<Rightarrow> val list \<Rightarrow> (error + string) \<times> 'a renderer_scheme" where
  "anywhere_st self [node] = (Inr (''//'' @ format_val node), self)"
| "anywhere_st self args = (Inl TypeError, self)"

fun attribute_st :: "'a renderer_scheme \<Rightarrow> val list \<Rightarrow> (error + string) \<times> 'a renderer_scheme" where
  "attribute_st self [node, attribute_name] =
     (Inr (format_val node @ ''/@'' @ format_val attribute_name), self)"
| "attribute_st self args = (Inl TypeError, self)"

fun child_st :: "'a renderer_scheme \<Rightarrow> val list \<Rightarrow> (error + string) \<times> 'a renderer_scheme" where
  "child_st self [parent, element_name] =
     (Inr (format_val parent @ ''/'' @ format_val element_name), self)"
| "child_st self args = (Inl TypeError, self)"

fun contains_st :: "'a renderer_scheme \<Rightarrow> val list \<Rightarrow> (error + string) \<times> 'a renderer_scheme" where
  "contains_st self [expr, v] =
     (Inr (''contains('' @ format_val expr @ '', '' @ format_val v @ '')''), self)"
| "contains_st self args = (Inl TypeError, self)"

fun descendant_st :: "'a renderer_scheme \<Rightarrow> val list \<Rightarrow> (error + string) \<times> 'a renderer_scheme" where
  "descendant_st self [parent, element_names] =
     (case items element_names of
        Inl e \<Rightarrow> (Inl e, self)
      | Inr es \<Rightarrow>
          if length es = 1 then (Inr (format_val parent @ ''//'' @ format_val (es ! 0)), self)
          else if length es > 1 then
            (Inr (format_val parent @ ''//*[''
                  @ join '' | '' (map (\<lambda>e. ''self::'' @ format_val e) es) @ '']''), self)
          else (Inr (format_val parent @ ''//*''), self))"
| "descendant_st self args = (Inl TypeError, self)"

fun equality_st :: "'a renderer_scheme \<Rightarrow> val list \<Rightarrow> (error + string) \<times> 'a renderer_scheme" where
  "equality_st self [expr1, expr2] =
     (Inr (format_val expr1 @ '' = '' @ format_val expr2), self)"
| "equality_st self args = (Inl TypeError, self)"

fun inverse_st :: "'a renderer_scheme \<Rightarrow> val list \<Rightarrow> (error + string) \<times> 'a renderer_scheme" where
  "inverse_st self [expr] = (Inr (''not('' @ format_val expr @ '')''), self)"
| "inverse_st self args = (Inl TypeError, self)"

fun is_st :: "'a renderer_scheme \<Rightarrow> val list \<Rightarrow> (error + string) \<times> 'a renderer_scheme" where
  "is_st self [expr1, expr2] =
     (if exact self then equality_st self [expr1, expr2]
      else contains_st self [expr1, expr2])"
| "is_st self args = (Inl TypeError, self)"

fun normalized_space_st :: "'a renderer_scheme \<Rightarrow> val list \<Rightarrow> (error + string) \<times> 'a renderer_scheme" where
  "normalized_space_st self [expr] =
     (Inr (''normalize-space('' @ format_val expr @ '')''), self)"
| "normalized_space_st self args = (Inl TypeError, self)"

fun one_of_st :: "'a renderer_scheme \<Rightarrow> val list \<Rightarrow> (error + string) \<times> 'a renderer_scheme" where
  "one_of_st self (expr # vals) =
     (Inr (join '' or '' (map (\<lambda>v. format_val expr @ '' = '' @ format_val v) vals)), self)"
| "one_of_st self [] = (Inl TypeError, self)"

fun or_st :: "'a renderer_scheme \<Rightarrow> val list \<Rightarrow> (error + string) \<times> 'a renderer_scheme" where
  "or_st self exprs =
     (case py_join '' or '' exprs of
        Inl e \<Rightarrow> (Inl e, self)
      | Inr s \<Rightarrow> (Inr (''('' @ s @ '')''), self))"

fun previous_sibling_st :: "'a renderer_scheme \<Rightarrow> val list \<Rightarrow> (error + string) \<times> 'a renderer_scheme" where
  "previous_sibling_st self [node, element_name] =
     (Inr (format_val node @ ''/preceding-sibling::*[1]/self::'' @ format_val element_name),
      self)"
| "previous_sibling_st self args = (Inl TypeError, self)"

fun string_function_st :: "'a renderer_scheme \<Rightarrow> val list \<Rightarrow> (error + string) \<times> 'a renderer_scheme" where
  "string_function_st self [expr] = (Inr (''string('' @ format_val expr @ '')''), self)"
| "string_function_st self args = (Inl TypeError, self)"

fun this_node_st :: "'a renderer_scheme \<Rightarrow> val list \<Rightarrow> (error + string) \<times> 'a renderer_scheme" where
  "this_node_st self [] = (Inr ''.'', self)"
| "this_node_st self args = (Inl TypeError, self)"

fun union_st :: "'a renderer_scheme \<Rightarrow> val list \<Rightarrow> (error + string) \<times> 'a renderer_scheme" where
  "union_st self exprs = (py_join '' | '' exprs, self)"

fun where_st :: "'a renderer_scheme \<Rightarrow> val list \<Rightarrow> (error + string) \<times> 'a renderer_scheme" where
  "where_st self (expr # predicate_exprs) =
     (Inr (format_val expr
           @ join [] (map (\<lambda>predicate_expr. ''['' @ format_val predicate_expr @ '']'')
                        predicate_exprs)), self)"
| "where_st self [] = (Inl TypeError, self)"

definition getattr_st ::
  "string \<Rightarrow> ('a renderer_scheme \<Rightarrow> val list \<Rightarrow> (error + string) \<times> 'a renderer_scheme) option" where
  "getattr_st = map_of
     [(''_anywhere'', anywhere_st),
      (''_attribute'', attribute_st),
      (''_child'', child_st),
      (''_contains'', contains_st),
      (''_descendant'', descendant_st),
      (''_equality'', equality_st),
      (''_inverse'', inverse_st),
      (''_is'', is_st),
      (''_normalized_space'', normalized_space_st),
      (''_one_of'', one_of_st),
      (''_or'', or_st),
      (''_previous_sibling'', previous_sibling_st),
      (''_string_function'', string_function_st),
      (''_this_node'', this_node_st),
      (''_union'', union_st),
      (''_where'', where_st)]"

definition dispatch_st :: "'a renderer_scheme \<Rightarrow> kind \<Rightarrow> val list \<Rightarrow> (error + string) \<times> 'a renderer_scheme" where
  "dispatch_st self k args =
     (case RENDER_METHOD_NAMES k of
        None \<Rightarrow> (Inl KeyError, self)
      | Some render_method_name \<Rightarrow>
          (case getattr_st render_method_name of
             None \<Rightarrow> (Inl AttributeError, self)
           | Some render_method \<Rightarrow> render_method self args))"

fun render_st ::
  "'a renderer_scheme \<Rightarrow> expression \<Rightarrow> (error + string) \<times> 'a renderer_scheme \<times> expression"
and convert_argument_st ::
  "'a renderer_scheme \<Rightarrow> argument \<Rightarrow> (error + val) \<times> 'a renderer_scheme \<times> argument"
and convert_arguments_st ::
  "'a renderer_scheme \<Rightarrow> argument list
     \<Rightarrow> (error + val list) \<times> 'a renderer_scheme \<times> argument list"
where
  "render_st self (Expression k args) =
     (case convert_arguments_st self args of
        (Inl e, self', args') \<Rightarrow> (Inl e, self', Expression k args')
      | (Inr vs, self', args') \<Rightarrow>
          (case dispatch_st self' k vs of
             (r, self'') \<Rightarrow> (r, self'', Expression k args')))"
| "convert_argument_st self (Expr e) =
     (case render_st self e of
        (Inl err, self', e') \<Rightarrow> (Inl err, self', Expr e')
      | (Inr s, self', e') \<Rightarrow> (Inr (VStr s), self', Expr e'))"
| "convert_argument_st self (ArgList xs) =
     (case convert_arguments_st self xs of
        (Inl err, self', xs') \<Rightarrow> (Inl err, self', ArgList xs')
      | (Inr vs, self', xs') \<Rightarrow> (Inr (VList vs), self', ArgList xs'))"
| "convert_argument_st self (Str s) =
     (case string_literal_st self s of (q, self') \<Rightarrow> (Inr (VStr q), self', Str s))"
| "convert_argument_st self (Lit s) = (Inr (VStr s), self, Lit s)"
| "convert_argument_st self Other = (Inr VNone, self, Other)"
| "convert_arguments_st self [] = (Inr [], self, [])"
| "convert_arguments_st self (a # as) =
     (case convert_argument_st self a of
        (Inl err, self', a') \<Rightarrow> (Inl err, self', a' # as)
      | (Inr v, self', a') \<Rightarrow>
          (case convert_arguments_st self' as of
             (Inl err, self'', as') \<Rightarrow> (Inl err, self'', a' # as')
           | (Inr vs, self'', as') \<Rightarrow> (Inr (v # vs), self'', a' # as')))"

text \<open>
  \<open>to_xpath\<close> creates its renderer, so what it leaves behind of the caller's objects is
  the node.
\<close>

definition to_xpath_st :: "expression \<Rightarrow> bool \<Rightarrow> (error + string) \<times> expression" where
  "to_xpath_st node e =
     (case render_st (Renderer e) node of (r, self', node') \<Rightarrow> (r, node'))"

section \<open>Dispatch\<close>

lemma dispatch_simps:
  "dispatch self ANYWHERE vs = anywhere self vs"
  "dispatch self ATTR vs = attribute self vs"
  "dispatch self CHILD vs = child self vs"
  "dispatch self CONTAINS vs = contains self vs"
  "dispatch self DESCENDANT vs = descendant self vs"
  "dispatch self EQUALITY vs = equality self vs"
  "dispatch self INVERSE vs = inverse_method self vs"
  "dispatch self IS vs = is_method self vs"
  "dispatch self NORMALIZED_SPACE vs = normalized_space self vs"
  "dispatch self ONE_OF vs = one_of self vs"
  "dispatch self OR vs = or_method self vs"
  "dispatch self PREVIOUS_SIBLING vs = previous_sibling self vs"
  "dispatch self STRING vs = string_function self vs"
  "dispatch self THIS_NODE vs = this_node self vs"
  "dispatch self UNION vs = union_method self vs"
  "dispatch self WHERE vs = where_method self vs"
  "dispatch self (OTHER_KIND n) vs = Inl KeyError"
  by (simp_all add: dispatch_def RENDER_METHOD_NAMES_def getattr_def)

lemma dispatch_no_entry:
  "RENDER_METHOD_NAMES k = None \<Longrightarrow> dispatch self k vs = Inl KeyError"
  by (simp add: dispatch_def)

lemma is_method_alt:
  "is_method self vs = (if exact self then equality self vs else contains self vs)"
  by (cases "(self, vs)" rule: is_method.cases) simp_all

text \<open>No method but \<open>_is\<close> reads the renderer.\<close>

lemma method_indep:
  "anywhere r1 vs = anywhere r2 vs"
  "attribute r1 vs = attribute r2 vs"
  "child r1 vs = child r2 vs"
  "contains r1 vs = contains r2 vs"
  "descendant r1 vs = descendant r2 vs"
  "equality r1 vs = equality r2 vs"
  "inverse_method r1 vs = inverse_method r2 vs"
  "normalized_space r1 vs = normalized_space r2 vs"
  "one_of r1 vs = one_of r2 vs"
  "or_method r1 vs = or_method r2 vs"
  "previous_sibling r1 vs = previous_sibling r2 vs"
  "string_function r1 vs = string_function r2 vs"
  "this_node r1 vs = this_node r2 vs"
  "union_method r1 vs = union_method r2 vs"
  "where_method r1 vs = where_method r2 vs"
proof -
  show "anywhere r1 vs = anywhere r2 vs"
    by (cases "(r1, vs)" rule: anywhere.cases) simp_all
  show "attribute r1 vs = attribute r2 vs"
    by (cases "(r1, vs)" rule: attribute.cases) simp_all
  show "child r1 vs = child r2 vs"
    by (cases "(r1, vs)" rule: child.cases) simp_all
  show "contains r1 vs = contains r2 vs"
    by (cases "(r1, vs)" rule: contains.cases) simp_all
  show "descendant r1 vs = descendant r2 vs"
    by (cases "(r1, vs)" rule: descendant.cases) simp_all
  show "equality r1 vs = equality r2 vs"
    by (cases "(r1, vs)" rule: equality.cases) simp_all
  show "inverse_method r1 vs = inverse_method r2 vs"
    by (cases "(r1, vs)" rule: inverse_method.cases) simp_all
  show "normalized_space r1 vs = normalized_space r2 vs"
    by (cases "(r1, vs)" rule: normalized_space.cases) simp_all
  show "one_of r1 vs = one_of r2 vs"
    by (cases "(r1, vs)" rule: one_of.cases) simp_all
  show "or_method r1 vs = or_method r2 vs"
    by simp
  show "previous_sibling r1 vs = previous_sibling r2 vs"
    by (cases "(r1, vs)" rule: previous_sibling.cases) simp_all
  show "string_function r1 vs = string_function r2 vs"
    by (cases "(r1, vs)" rule: string_function.cases) simp_all
  show "this_node r1 vs = this_node r2 vs"
    by (cases "(r1, vs)" rule: this_node.cases) simp_all
  show "union_method r1 vs = union_method r2 vs"
    by simp
  show "where_method r1 vs = where_method r2 vs"
    by (cases "(r1, vs)" rule: where_method.cases) simp_all
qed

lemma dispatch_other_kinds:
  "k \<noteq> IS \<Longrightarrow> dispatch r1 k vs = dispatch r2 k vs"
  using method_indep [of r1 vs r2] by (cases k) (simp_all add: dispatch_simps)

lemma dispatch_same_mode:
  assumes "exact r1 = exact r2"
  shows "dispatch r1 k vs = dispatch r2 k vs"
proof (cases "k = IS")
  case True
  then show ?thesis
    using assms method_indep(4,6) [of r1 vs r2]
    by (simp add: dispatch_simps is_method_alt)
next
  case False
  then show ?thesis by (rule dispatch_other_kinds)
qed

lemma render_same_mode:
  assumes "exact r1 = exact r2"
  shows "render r1 t = render r2 t"
    and "convert_argument r1 a = convert_argument r2 a"
    and "convert_arguments r1 as = convert_arguments r2 as"
  using assms
proof (induction r1 t and r1 a and r1 as
       rule: render_convert_argument_convert_arguments.induct)
  case (1 self k args)
  then show ?case
    using dispatch_same_mode [of self r2 k] by (simp split: sum.splits)
qed (simp_all split: sum.splits)

section \<open>Resolving lists of arguments\<close>

lemma join_empty_sep: "join [] xs = concat xs"
  by (induction "[] :: string" xs rule: join.induct) simp_all

lemma strs_map_VStr: "strs (map VStr ss) = Inr ss"
  by (induction ss) simp_all

lemma py_join_strs: "py_join sep (map VStr ss) = Inr (join sep ss)"
  by (simp add: py_join_def strs_map_VStr)

lemma convert_arguments_Lit: "convert_arguments self (map Lit ns) = Inr (map VStr ns)"
  by (induction ns) simp_all

lemma convert_arguments_Str:
  "convert_arguments self (map Str ts) = Inr (map (\<lambda>t. VStr (squote @ t @ squote)) ts)"
  by (induction ts) (simp_all add: string_literal_def)

lemma convert_arguments_Expr:
  "list_all2 (\<lambda>e s. render self e = Inr s) es ss \<Longrightarrow>
     convert_arguments self (map Expr es) = Inr (map VStr ss)"
  by (induction es ss rule: list_all2_induct) simp_all

section \<open>What each method accepts\<close>

lemma strs_all_str: "(\<exists>ss. strs vs = Inr ss) = all_str vs"
  by (induction vs rule: strs.induct) (auto split: sum.splits)

lemma py_join_all_str: "(\<exists>s. py_join sep vs = Inr s) = all_str vs"
  using strs_all_str [of vs] by (auto simp: py_join_def split: sum.splits)

lemma method_accepts:
  "(\<exists>s. this_node self vs = Inr s) = (length vs = 0)"
  "(\<exists>s. anywhere self vs = Inr s) = (length vs = 1)"
  "(\<exists>s. inverse_method self vs = Inr s) = (length vs = 1)"
  "(\<exists>s. string_function self vs = Inr s) = (length vs = 1)"
  "(\<exists>s. normalized_space self vs = Inr s) = (length vs = 1)"
  "(\<exists>s. attribute self vs = Inr s) = (length vs = 2)"
  "(\<exists>s. child self vs = Inr s) = (length vs = 2)"
  "(\<exists>s. contains self vs = Inr s) = (length vs = 2)"
  "(\<exists>s. equality self vs = Inr s) = (length vs = 2)"
  "(\<exists>s. previous_sibling self vs = Inr s) = (length vs = 2)"
  "(\<exists>s. one_of self vs = Inr s) = (1 \<le> length vs)"
  "(\<exists>s. where_method self vs = Inr s) = (1 \<le> length vs)"
proof -
  show "(\<exists>s. this_node self vs = Inr s) = (length vs = 0)"
    by (cases "(self, vs)" rule: this_node.cases) simp_all
  show "(\<exists>s. anywhere self vs = Inr s) = (length vs = 1)"
    by (cases "(self, vs)" rule: anywhere.cases) simp_all
  show "(\<exists>s. inverse_method self vs = Inr s) = (length vs = 1)"
    by (cases "(self, vs)" rule: inverse_method.cases) simp_all
  show "(\<exists>s. string_function self vs = Inr s) = (length vs = 1)"
    by (cases "(self, vs)" rule: string_function.cases) simp_all
  show "(\<exists>s. normalized_space self vs = Inr s) = (length vs = 1)"
    by (cases "(self, vs)" rule: normalized_space.cases) simp_all
  show "(\<exists>s. attribute self vs = Inr s) = (length vs = 2)"
    by (cases "(self, vs)" rule: attribute.cases) simp_all
  show "(\<exists>s. child self vs = Inr s) = (length vs = 2)"
    by (cases "(self, vs)" rule: child.cases) simp_all
  show "(\<exists>s. contains self vs = Inr s) = (length vs = 2)"
    by (cases "(self, vs)" rule: contains.cases) simp_all
  show "(\<exists>s. equality self vs = Inr s) = (length vs = 2)"
    by (cases "(self, vs)" rule: equality.cases) simp_all
  show "(\<exists>s. previous_sibling self vs = Inr s) = (length vs = 2)"
    by (cases "(self, vs)" rule: previous_sibling.cases) simp_all
  show "(\<exists>s. one_of self vs = Inr s) = (1 \<le> length vs)"
    by (cases "(self, vs)" rule: one_of.cases) simp_all
  show "(\<exists>s. where_method self vs = Inr s) = (1 \<le> length vs)"
    by (cases "(self, vs)" rule: where_method.cases) simp_all
qed

lemma descendant_accepts:
  "(\<exists>s. descendant self vs = Inr s) = (length vs = 2 \<and> vs ! 1 \<noteq> VNone)"
proof (cases "(self, vs)" rule: descendant.cases)
  case (1 self' parent element_names)
  then show ?thesis by (cases element_names) simp_all
qed simp_all

lemma is_method_accepts: "(\<exists>s. is_method self vs = Inr s) = (length vs = 2)"
  by (simp add: is_method_alt method_accepts)

lemma or_method_accepts: "(\<exists>s. or_method self vs = Inr s) = all_str vs"
  using py_join_all_str [of "'' or ''" vs]
  by (cases "py_join '' or '' vs") auto

lemma union_method_accepts: "(\<exists>s. union_method self vs = Inr s) = all_str vs"
  using py_join_all_str [of "'' | ''" vs] by simp

lemma dispatch_accepts: "(\<exists>s. dispatch self k vs = Inr s) = template_accepts k vs"
  by (cases k)
     (simp_all only: dispatch_simps method_accepts descendant_accepts is_method_accepts
        or_method_accepts union_method_accepts template_accepts.simps, simp_all)

section \<open>Union construction\<close>

lemma union_op_assoc: "union_op (union_op a b) c = union_op a (union_op b c)"
  by (simp add: union_op_def)

lemma operands_not_union: "kind_of a \<noteq> UNION \<Longrightarrow> operands a = [Expr a]"
  by (cases a) simp

section \<open>Mode sensitivity\<close>

text \<open>
  Claim C1. For all operands \<open>a\<close> and \<open>b\<close>, an IS node rendered by an exact renderer gives
  what EQUALITY on the same operands gives, and rendered by an approximate renderer what
  CONTAINS gives (the same string, or the same error). No other kind reads the flag:
  a node of any kind but IS whose arguments resolve alike under two renderers renders
  alike under both.
\<close>

theorem is_mode_sensitivity:
  "(exact self \<longrightarrow>
      render self (Expression IS [a, b]) = render self (Expression EQUALITY [a, b]))
   \<and> (\<not> exact self \<longrightarrow>
      render self (Expression IS [a, b]) = render self (Expression CONTAINS [a, b]))
   \<and> (k \<noteq> IS \<longrightarrow> convert_arguments r1 args = convert_arguments r2 args \<longrightarrow>
      render r1 (Expression k args) = render r2 (Expression k args))"
proof (intro conjI impI)
  assume "exact self"
  then show "render self (Expression IS [a, b]) = render self (Expression EQUALITY [a, b])"
    by (simp add: dispatch_simps is_method_alt split: sum.splits)
next
  assume "\<not> exact self"
  then show "render self (Expression IS [a, b]) = render self (Expression CONTAINS [a, b])"
    by (simp add: dispatch_simps is_method_alt split: sum.splits)
next
  assume "k \<noteq> IS" and "convert_arguments r1 args = convert_arguments r2 args"
  then show "render r1 (Expression k args) = render r2 (Expression k args)"
    using dispatch_other_kinds [of k r1 _ r2] by (simp split: sum.splits)
qed

theorem is_mode_sensitivity_witness:
  "exact (Renderer True)
   \<and> render (Renderer True) (Expression IS [Expr (Expression THIS_NODE []), Str ''x''])
       = Inr (''. = '' @ squote @ ''x'' @ squote)
   \<and> \<not> exact (Renderer False)
   \<and> render (Renderer False) (Expression IS [Expr (Expression THIS_NODE []), Str ''x''])
       = Inr (''contains(., '' @ squote @ ''x'' @ squote @ '')'')
   \<and> OR \<noteq> IS
   \<and> convert_arguments (Renderer True) [Lit ''p'', Lit ''q'']
       = convert_arguments (Renderer False) [Lit ''p'', Lit ''q'']
   \<and> render (Renderer True) (Expression OR [Lit ''p'', Lit ''q''])
       = render (Renderer False) (Expression OR [Lit ''p'', Lit ''q''])"
  using is_mode_sensitivity [of "Renderer True" "Expr (Expression THIS_NODE [])" "Str ''x''"
          OR "Renderer True" "[Lit ''p'', Lit ''q'']" "Renderer False"]
        is_mode_sensitivity [of "Renderer False" "Expr (Expression THIS_NODE [])" "Str ''x''"
          OR "Renderer True" "[Lit ''p'', Lit ''q'']" "Renderer False"]
  by (simp add: Renderer_def dispatch_simps string_literal_def)

section \<open>Quoting\<close>

text \<open>
  Claim C2. Resolving a Literal gives its raw string; resolving a plain string gives the
  string between single quotes, whatever characters it holds (nothing is escaped). So
  EQUALITY(ATTR(THIS_NODE, Literal("id")), v) renders to \<open>./@id = 'v'\<close> for every plain
  string \<open>v\<close>: the output contains \<open>'v'\<close> and starts with the unquoted \<open>./@id\<close>.
\<close>

theorem quoting_correctness:
  "convert_argument self (Lit s) = Inr (VStr s)
   \<and> convert_argument self (Str v) = Inr (VStr (squote @ v @ squote))
   \<and> render self (Expression EQUALITY
        [Expr (Expression ATTR [Expr (Expression THIS_NODE []), Lit ''id'']), Str v])
       = Inr (''./@id = '' @ squote @ v @ squote)
   \<and> (case render self (Expression EQUALITY
        [Expr (Expression ATTR [Expr (Expression THIS_NODE []), Lit ''id'']), Str v]) of
         Inl e \<Rightarrow> False
       | Inr out \<Rightarrow> sublist (squote @ v @ squote) out \<and> prefix ''./@id = '' out)"
proof -
  have r: "render self (Expression EQUALITY
        [Expr (Expression ATTR [Expr (Expression THIS_NODE []), Lit ''id'']), Str v])
       = Inr (''./@id = '' @ (squote @ v @ squote))"
    by (simp add: dispatch_simps string_literal_def)
  have s: "sublist (squote @ v @ squote) (''./@id = '' @ (squote @ v @ squote))"
    by (rule sublist_append_leftI)
  have p: "prefix ''./@id = '' (''./@id = '' @ (squote @ v @ squote))"
    by (rule prefixI) simp
  show ?thesis
    unfolding r using s p by (simp add: string_literal_def)
qed

section \<open>The state-passing renderer and the functional one\<close>

lemma method_st_eq:
  "anywhere_st self vs = (anywhere self vs, self)"
  "attribute_st self vs = (attribute self vs, self)"
  "child_st self vs = (child self vs, self)"
  "contains_st self vs = (contains self vs, self)"
  "descendant_st self vs = (descendant self vs, self)"
  "equality_st self vs = (equality self vs, self)"
  "inverse_st self vs = (inverse_method self vs, self)"
  "normalized_space_st self vs = (normalized_space self vs, self)"
  "one_of_st self vs = (one_of self vs, self)"
  "or_st self vs = (or_method self vs, self)"
  "previous_sibling_st self vs = (previous_sibling self vs, self)"
  "string_function_st self vs = (string_function self vs, self)"
  "this_node_st self vs = (this_node self vs, self)"
  "union_st self vs = (union_method self vs, self)"
  "where_st self vs = (where_method self vs, self)"
proof -
  show "anywhere_st self vs = (anywhere self vs, self)"
    by (cases "(self, vs)" rule: anywhere.cases) simp_all
  show "attribute_st self vs = (attribute self vs, self)"
    by (cases "(self, vs)" rule: attribute.cases) simp_all
  show "child_st self vs = (child self vs, self)"
    by (cases "(self, vs)" rule: child.cases) simp_all
  show "contains_st self vs = (contains self vs, self)"
    by (cases "(self, vs)" rule: contains.cases) simp_all
  show "descendant_st self vs = (descendant self vs, self)"
    by (cases "(self, vs)" rule: descendant.cases) (simp_all split: sum.splits)
  show "equality_st self vs = (equality self vs, self)"
    by (cases "(self, vs)" rule: equality.cases) simp_all
  show "inverse_st self vs = (inverse_method self vs, self)"
    by (cases "(self, vs)" rule: inverse_method.cases) simp_all
  show "normalized_space_st self vs = (normalized_space self vs, self)"
    by (cases "(self, vs)" rule: normalized_space.cases) simp_all
  show "one_of_st self vs = (one_of self vs, self)"
    by (cases "(self, vs)" rule: one_of.cases) simp_all
  show "or_st self vs = (or_method self vs, self)"
    by (simp split: sum.splits)
  show "previous_sibling_st self vs = (previous_sibling self vs, self)"
    by (cases "(self, vs)" rule: previous_sibling.cases) simp_all
  show "string_function_st self vs = (string_function self vs, self)"
    by (cases "(self, vs)" rule: string_function.cases) simp_all
  show "this_node_st self vs = (this_node self vs, self)"
    by (cases "(self, vs)" rule: this_node.cases) simp_all
  show "union_st self vs = (union_method self vs, self)"
    by simp
  show "where_st self vs = (where_method self vs, self)"
    by (cases "(self, vs)" rule: where_method.cases) simp_all
qed

lemma is_st_eq: "is_st self vs = (is_method self vs, self)"
  by (cases "(self, vs)" rule: is_method.cases) (simp_all add: method_st_eq)

lemma dispatch_st_eq: "dispatch_st self k vs = (dispatch self k vs, self)"
  by (cases k)
     (simp_all add: dispatch_st_def dispatch_def RENDER_METHOD_NAMES_def getattr_st_def
        getattr_def method_st_eq is_st_eq del: or_st.simps union_st.simps)

lemma render_st_eq:
  "render_st self t = (render self t, self, t)"
  "convert_argument_st self a = (convert_argument self a, self, a)"
  "convert_arguments_st self as = (convert_arguments self as, self, as)"
  by (induction self t and self a and self as
        rule: render_convert_argument_convert_arguments.induct)
     (simp_all add: dispatch_st_eq string_literal_st_def string_literal_def split: sum.splits)


section \<open>Determinism\<close>

text \<open>
  Claim C7. Rendering a tree \<open>t\<close> with a renderer \<open>self\<close>, and rendering again with the
  renderer and the tree as the first call left them, gives the same result both times,
  character for character (or the same error). Both calls leave the renderer, its mode
  flag included, and the tree as they found them. The result is the value of the function
  \<open>to_xpath\<close> at the tree and the mode flag, so it depends on nothing else; \<open>to_xpath\<close>
  run with its state leaves the tree unchanged as well.
\<close>

theorem render_deterministic:
  "render_st self t = (r1, self1, t1) \<Longrightarrow> render_st self1 t1 = (r2, self2, t2) \<Longrightarrow>
     r2 = r1 \<and> self1 = self \<and> t1 = t \<and> self2 = self \<and> t2 = t
     \<and> r1 = to_xpath t (exact self) \<and> to_xpath_st t (exact self) = (r1, t)"
proof -
  assume a: "render_st self t = (r1, self1, t1)"
    and b: "render_st self1 t1 = (r2, self2, t2)"
  from a [unfolded render_st_eq(1)]
  have 1: "r1 = render self t" "self1 = self" "t1 = t"
    by auto
  from b [unfolded render_st_eq(1)] 1
  have 2: "r2 = render self t" "self2 = self" "t2 = t"
    by auto
  have 3: "render self t = render (Renderer (exact self)) t"
    by (rule render_same_mode(1)) (simp add: Renderer_def)
  show ?thesis
    using 1 2 3 by (simp add: to_xpath_def to_xpath_st_def render_st_eq)
qed

theorem render_deterministic_witness:
  "render_st (Renderer True)
      (Expression IS [Expr (Expression THIS_NODE []), Str ''a''])
     = (Inr (''. = '' @ squote @ ''a'' @ squote), Renderer True,
        Expression IS [Expr (Expression THIS_NODE []), Str ''a''])
   \<and> to_xpath (Expression IS [Expr (Expression THIS_NODE []), Str ''a'']) True
       = Inr (''. = '' @ squote @ ''a'' @ squote)
   \<and> to_xpath_st (Expression IS [Expr (Expression THIS_NODE []), Str ''a'']) True
       = (Inr (''. = '' @ squote @ ''a'' @ squote),
          Expression IS [Expr (Expression THIS_NODE []), Str ''a''])"
proof -
  have r: "render_st (Renderer True)
      (Expression IS [Expr (Expression THIS_NODE []), Str ''a''])
     = (Inr (''. = '' @ squote @ ''a'' @ squote), Renderer True,
        Expression IS [Expr (Expression THIS_NODE []), Str ''a''])"
    by (simp add: dispatch_st_def RENDER_METHOD_NAMES_def getattr_st_def
          string_literal_st_def Renderer_def)
  show ?thesis
    using r render_deterministic [OF r r] by (simp add: Renderer_def)
qed

section \<open>Unknown kinds\<close>

text \<open>
  Claim C9. A node whose kind has no entry in the method-name table never renders: the
  lookup raises KeyError once the arguments are resolved (an error raised while resolving
  them comes first). There is no default entry.
\<close>

theorem unknown_kind_is_fatal:
  "RENDER_METHOD_NAMES k = None \<Longrightarrow>
     (\<exists>e. render self (Expression k args) = Inl e)
     \<and> (\<forall>vs. convert_arguments self args = Inr vs \<longrightarrow>
           render self (Expression k args) = Inl KeyError)"
  by (simp add: dispatch_no_entry split: sum.splits)

theorem unknown_kind_is_fatal_witness:
  "RENDER_METHOD_NAMES (OTHER_KIND ''STARTS_WITH'') = None
   \<and> convert_arguments (Renderer False) [Expr (Expression THIS_NODE []), Str ''a'']
       = Inr [VStr ''.'', VStr (squote @ ''a'' @ squote)]
   \<and> render (Renderer False)
        (Expression (OTHER_KIND ''STARTS_WITH'') [Expr (Expression THIS_NODE []), Str ''a''])
       = Inl KeyError"
proof -
  have h: "RENDER_METHOD_NAMES (OTHER_KIND ''STARTS_WITH'') = None"
    by (simp add: RENDER_METHOD_NAMES_def)
  have c: "convert_arguments (Renderer False) [Expr (Expression THIS_NODE []), Str ''a'']
       = Inr [VStr ''.'', VStr (squote @ ''a'' @ squote)]"
    by (simp add: dispatch_simps string_literal_def)
  show ?thesis
    using h c unknown_kind_is_fatal [OF h, of "Renderer False"
            "[Expr (Expression THIS_NODE []), Str ''a'']"]
    by blast
qed

section \<open>Predicates\<close>

text \<open>
  Claim C10. A WHERE node that carries its base expression and no predicate renders
  exactly as the base expression does, in either mode: no bracket is written (and when
  the base fails to render, the node fails with the same error).
\<close>

theorem where_without_predicates:
  "render self (Expression WHERE [Expr e]) = render self e"
  by (simp add: dispatch_simps split: sum.splits)

text \<open>
  Claim C4. When the base node \<open>n\<close> renders to \<open>s\<close> and the predicates \<open>p1..pk\<close> render to
  \<open>t1..tk\<close>, the WHERE node over \<open>n\<close> and \<open>p1..pk\<close> renders to \<open>s\<close> followed by
  \<open>[t1]...[tk]\<close>, the brackets in the order of the predicates; for two predicates that is
  \<open>s[t1][t2]\<close>.
\<close>

theorem where_predicates:
  "(render self n = Inr s \<longrightarrow> list_all2 (\<lambda>p t. render self p = Inr t) ps ts \<longrightarrow>
      render self (Expression WHERE (Expr n # map Expr ps))
        = Inr (s @ concat (map (\<lambda>t. ''['' @ t @ '']'') ts)))
   \<and> (render self n = Inr s \<longrightarrow> render self p1 = Inr t1 \<longrightarrow> render self p2 = Inr t2 \<longrightarrow>
      render self (Expression WHERE [Expr n, Expr p1, Expr p2])
        = Inr (s @ ''['' @ t1 @ '']'' @ ''['' @ t2 @ '']''))"
  by (simp add: dispatch_simps convert_arguments_Expr join_empty_sep comp_def)

theorem where_predicates_witness:
  "render (Renderer False) (Expression DESCENDANT [Expr (Expression THIS_NODE []),
       ArgList [Lit ''input'']]) = Inr ''.//input''
   \<and> list_all2 (\<lambda>p t. render (Renderer False) p = Inr t)
       [Expression ATTR [Expr (Expression THIS_NODE []), Lit ''href''],
        Expression INVERSE [Expr (Expression ATTR [Expr (Expression THIS_NODE []), Lit ''id''])]]
       [''./@href'', ''not(./@id)'']
   \<and> render (Renderer False) (Expression WHERE
       [Expr (Expression DESCENDANT [Expr (Expression THIS_NODE []), ArgList [Lit ''input'']]),
        Expr (Expression ATTR [Expr (Expression THIS_NODE []), Lit ''href'']),
        Expr (Expression INVERSE [Expr (Expression ATTR [Expr (Expression THIS_NODE []),
           Lit ''id''])])])
       = Inr ''.//input[./@href][not(./@id)]''"
  using where_predicates [of "Renderer False"
          "Expression DESCENDANT [Expr (Expression THIS_NODE []), ArgList [Lit ''input'']]"
          "''.//input''"
          "[Expression ATTR [Expr (Expression THIS_NODE []), Lit ''href''],
            Expression INVERSE [Expr (Expression ATTR [Expr (Expression THIS_NODE []),
              Lit ''id''])]]"
          "[''./@href'', ''not(./@id)'']"
          "Expression ATTR [Expr (Expression THIS_NODE []), Lit ''href'']" "''./@href''"
          "Expression INVERSE [Expr (Expression ATTR [Expr (Expression THIS_NODE []),
              Lit ''id''])]" "''not(./@id)''"]
  by (simp add: dispatch_simps)

section \<open>Descendants\<close>

text \<open>
  Claim C3. With the parent rendered to \<open>p\<close>, a DESCENDANT node renders by the length of
  its list of tag names (Literals, as the DESCENDANT row of the data model has them): no
  name gives \<open>p//*\<close>, one name \<open>n\<close> gives \<open>p//n\<close>, and more than one give
  \<open>p//*[self::n1 | ... | self::nk]\<close> in the order of the list. On THIS_NODE: \<open>.//*\<close>,
  \<open>.//button\<close> and \<open>.//*[self::a | self::b]\<close>.
\<close>

theorem descendant_arity_policy:
  "(render self parent = Inr p \<longrightarrow>
      render self (Expression DESCENDANT [Expr parent, ArgList []]) = Inr (p @ ''//*'')
      \<and> render self (Expression DESCENDANT [Expr parent, ArgList [Lit n]])
           = Inr (p @ ''//'' @ n)
      \<and> (1 < length ns \<longrightarrow>
           render self (Expression DESCENDANT [Expr parent, ArgList (map Lit ns)])
             = Inr (p @ ''//*['' @ join '' | '' (map (\<lambda>n. ''self::'' @ n) ns) @ '']'')))
   \<and> render self (Expression DESCENDANT [Expr (Expression THIS_NODE []), ArgList []])
        = Inr ''.//*''
   \<and> render self (Expression DESCENDANT
         [Expr (Expression THIS_NODE []), ArgList [Lit ''button'']])
        = Inr ''.//button''
   \<and> render self (Expression DESCENDANT
         [Expr (Expression THIS_NODE []), ArgList [Lit ''a'', Lit ''b'']])
        = Inr ''.//*[self::a | self::b]''"
  by (simp add: dispatch_simps convert_arguments_Lit comp_def)

theorem descendant_arity_policy_witness:
  "render (Renderer False) (Expression ANYWHERE [Lit ''form'']) = Inr ''//form''
   \<and> render (Renderer False) (Expression DESCENDANT
         [Expr (Expression ANYWHERE [Lit ''form'']), ArgList []]) = Inr ''//form//*''
   \<and> render (Renderer False) (Expression DESCENDANT
         [Expr (Expression ANYWHERE [Lit ''form'']), ArgList [Lit ''select'']])
        = Inr ''//form//select''
   \<and> 1 < length [''input'', ''select'', ''textarea'']
   \<and> render (Renderer False) (Expression DESCENDANT
         [Expr (Expression ANYWHERE [Lit ''form'']),
          ArgList [Lit ''input'', Lit ''select'', Lit ''textarea'']])
        = Inr ''//form//*[self::input | self::select | self::textarea]''"
  using descendant_arity_policy [of "Renderer False" "Expression ANYWHERE [Lit ''form'']"
          "''//form''" "''select''" "[''input'', ''select'', ''textarea'']"]
  by (simp add: dispatch_simps)

section \<open>Unions\<close>

text \<open>
  Claim C5. A UNION node whose operands render to \<open>s1..sk\<close> renders to these joined by
  \<open>" | "\<close> in order. The union operator (flattening, as the spec describes it) builds
  the same tree from \<open>(a + b) + c\<close> and from \<open>a + (b + c)\<close>; for operands that are not
  themselves unions that tree is UNION(a, b, c), and it renders to
  \<open>render a | render b | render c\<close>. The rendered text is the same for the nested trees
  UNION(UNION(a, b), c) and UNION(a, UNION(b, c)) too.
\<close>

theorem union_rendering:
  "(list_all2 (\<lambda>e s. render self e = Inr s) es ss \<longrightarrow>
      render self (Expression UNION (map Expr es)) = Inr (join '' | '' ss))
   \<and> union_op (union_op a b) c = union_op a (union_op b c)
   \<and> (kind_of a \<noteq> UNION \<longrightarrow> kind_of b \<noteq> UNION \<longrightarrow> kind_of c \<noteq> UNION \<longrightarrow>
      render self a = Inr sa \<longrightarrow> render self b = Inr sb \<longrightarrow> render self c = Inr sc \<longrightarrow>
        union_op (union_op a b) c = Expression UNION [Expr a, Expr b, Expr c]
        \<and> render self (union_op (union_op a b) c) = Inr (sa @ '' | '' @ sb @ '' | '' @ sc)
        \<and> render self (union_op a (union_op b c)) = Inr (sa @ '' | '' @ sb @ '' | '' @ sc)
        \<and> render self (Expression UNION [Expr (Expression UNION [Expr a, Expr b]), Expr c])
             = Inr (sa @ '' | '' @ sb @ '' | '' @ sc)
        \<and> render self (Expression UNION [Expr a, Expr (Expression UNION [Expr b, Expr c])])
             = Inr (sa @ '' | '' @ sb @ '' | '' @ sc))"
proof (intro conjI impI)
  assume "list_all2 (\<lambda>e s. render self e = Inr s) es ss"
  then show "render self (Expression UNION (map Expr es)) = Inr (join '' | '' ss)"
    by (simp add: dispatch_simps convert_arguments_Expr py_join_strs)
next
  show "union_op (union_op a b) c = union_op a (union_op b c)"
    by (rule union_op_assoc)
next
  assume k: "kind_of a \<noteq> UNION" "kind_of b \<noteq> UNION" "kind_of c \<noteq> UNION"
    and r: "render self a = Inr sa" "render self b = Inr sb" "render self c = Inr sc"
  show f: "union_op (union_op a b) c = Expression UNION [Expr a, Expr b, Expr c]"
    using k by (simp add: union_op_def operands_not_union)
  have u: "render self (Expression UNION [Expr a, Expr b, Expr c])
      = Inr (sa @ '' | '' @ sb @ '' | '' @ sc)"
    using r by (simp add: dispatch_simps py_join_def)
  show "render self (union_op (union_op a b) c) = Inr (sa @ '' | '' @ sb @ '' | '' @ sc)"
    using f u by simp
  show "render self (union_op a (union_op b c)) = Inr (sa @ '' | '' @ sb @ '' | '' @ sc)"
    using f u by (simp add: union_op_assoc)
  show "render self (Expression UNION [Expr (Expression UNION [Expr a, Expr b]), Expr c])
             = Inr (sa @ '' | '' @ sb @ '' | '' @ sc)"
    using r by (simp add: dispatch_simps py_join_def)
  show "render self (Expression UNION [Expr a, Expr (Expression UNION [Expr b, Expr c])])
             = Inr (sa @ '' | '' @ sb @ '' | '' @ sc)"
    using r by (simp add: dispatch_simps py_join_def)
qed

theorem union_rendering_witness:
  "list_all2 (\<lambda>e s. render (Renderer False) e = Inr s)
      [Expression ANYWHERE [Lit ''a''], Expression ANYWHERE [Lit ''b'']] [''//a'', ''//b'']
   \<and> render (Renderer False) (Expression UNION
        [Expr (Expression ANYWHERE [Lit ''a'']), Expr (Expression ANYWHERE [Lit ''b''])])
       = Inr ''//a | //b''
   \<and> kind_of (Expression ANYWHERE [Lit ''a'']) \<noteq> UNION
   \<and> kind_of (Expression ANYWHERE [Lit ''b'']) \<noteq> UNION
   \<and> kind_of (Expression THIS_NODE []) \<noteq> UNION
   \<and> render (Renderer False) (Expression ANYWHERE [Lit ''a'']) = Inr ''//a''
   \<and> render (Renderer False) (Expression ANYWHERE [Lit ''b'']) = Inr ''//b''
   \<and> render (Renderer False) (Expression THIS_NODE []) = Inr ''.''
   \<and> render (Renderer False)
        (union_op (union_op (Expression ANYWHERE [Lit ''a'']) (Expression ANYWHERE [Lit ''b'']))
           (Expression THIS_NODE []))
       = Inr ''//a | //b | .''
   \<and> render (Renderer False)
        (union_op (Expression ANYWHERE [Lit ''a''])
           (union_op (Expression ANYWHERE [Lit ''b'']) (Expression THIS_NODE [])))
       = Inr ''//a | //b | .''"
  using union_rendering [of "Renderer False"
          "[Expression ANYWHERE [Lit ''a''], Expression ANYWHERE [Lit ''b'']]"
          "[''//a'', ''//b'']"
          "Expression ANYWHERE [Lit ''a'']" "Expression ANYWHERE [Lit ''b'']"
          "Expression THIS_NODE []" "''//a''" "''//b''" "''.''"]
  by (simp add: dispatch_simps)

section \<open>Disjunctions\<close>

text \<open>
  Claim C6. With the left operand rendered to \<open>sa\<close> and the values resolved, each on its
  own, to \<open>r1..rk\<close>, a ONE_OF node renders to the clauses \<open>sa = ri\<close> joined by \<open>" or "\<close> in
  the order of the values, with nothing around them; a plain string value \<open>t\<close> appears as
  \<open>'t'\<close>. An OR node whose operands render to \<open>s1..sk\<close> renders to these joined by
  \<open>" or "\<close> between parentheses.
\<close>

theorem one_of_rendering:
  "(render self a = Inr sa \<longrightarrow> convert_arguments self vs = Inr rs \<longrightarrow>
      render self (Expression ONE_OF (Expr a # vs))
        = Inr (join '' or '' (map (\<lambda>r. sa @ '' = '' @ format_val r) rs)))
   \<and> (render self a = Inr sa \<longrightarrow>
      render self (Expression ONE_OF (Expr a # map Str ts))
        = Inr (join '' or '' (map (\<lambda>t. sa @ '' = '' @ squote @ t @ squote) ts)))
   \<and> (list_all2 (\<lambda>e s. render self e = Inr s) es ss \<longrightarrow>
      render self (Expression OR (map Expr es)) = Inr (''('' @ join '' or '' ss @ '')''))"
  by (simp add: dispatch_simps convert_arguments_Expr convert_arguments_Str py_join_strs
        comp_def)

theorem one_of_rendering_witness:
  "render (Renderer False) (Expression ATTR [Expr (Expression THIS_NODE []), Lit ''type''])
     = Inr ''./@type''
   \<and> convert_arguments (Renderer False) [Lit ''x'', Expr (Expression THIS_NODE [])]
       = Inr [VStr ''x'', VStr ''.'']
   \<and> render (Renderer False) (Expression ONE_OF
        [Expr (Expression ATTR [Expr (Expression THIS_NODE []), Lit ''type'']),
         Lit ''x'', Expr (Expression THIS_NODE [])])
       = Inr ''./@type = x or ./@type = .''
   \<and> render (Renderer False) (Expression ONE_OF
        [Expr (Expression ATTR [Expr (Expression THIS_NODE []), Lit ''type'']),
         Str ''submit'', Str ''reset''])
       = Inr (''./@type = '' @ squote @ ''submit'' @ squote
              @ '' or ./@type = '' @ squote @ ''reset'' @ squote)
   \<and> list_all2 (\<lambda>e s. render (Renderer False) e = Inr s)
        [Expression ANYWHERE [Lit ''a''], Expression THIS_NODE []] [''//a'', ''.'']
   \<and> render (Renderer False) (Expression OR
        [Expr (Expression ANYWHERE [Lit ''a'']), Expr (Expression THIS_NODE [])])
       = Inr ''(//a or .)''"
  using one_of_rendering [of "Renderer False"
          "Expression ATTR [Expr (Expression THIS_NODE []), Lit ''type'']" "''./@type''"
          "[Lit ''x'', Expr (Expression THIS_NODE [])]" "[VStr ''x'', VStr ''.'']"
          "[''submit'', ''reset'']"
          "[Expression ANYWHERE [Lit ''a''], Expression THIS_NODE []]" "[''//a'', ''.'']"]
  by (simp add: dispatch_simps)

section \<open>Malformed argument lists\<close>

text \<open>
  Claim C8 does not hold as stated: an argument of a type that \<open>_convert_argument\<close> does
  not know resolves to \<open>None\<close>, and EQUALITY writes it into the output as the text
  \<open>None\<close>.
\<close>

theorem malformed_arguments_counterexample:
  "render (Renderer False) (Expression EQUALITY [Expr (Expression THIS_NODE []), Other])
     = Inr ''. = None''"
  by (simp add: dispatch_simps)

text \<open>
  Claim C8, amended. An error raised while resolving the arguments aborts the rendering
  of the node. Once they are resolved, the node renders if and only if the call of its
  kind's method accepts them: the count fits the signature (none for THIS_NODE; one for
  ANYWHERE, INVERSE, STRING, NORMALIZED_SPACE; two for ATTR, CHILD, CONTAINS, DESCENDANT,
  EQUALITY, IS, PREVIOUS_SIBLING; at least one for ONE_OF and WHERE; any number for OR
  and UNION), every operand of OR and UNION is a string, and the second argument of
  DESCENDANT is not \<open>None\<close>. The types of the arguments are not checked otherwise: an
  argument of an unknown type resolves to \<open>None\<close>, which a template writes as the text
  \<open>None\<close>.
\<close>

theorem malformed_arguments:
  "(convert_arguments self args = Inl e \<longrightarrow> render self (Expression k args) = Inl e)
   \<and> (convert_arguments self args = Inr vs \<longrightarrow>
        (\<exists>s. render self (Expression k args) = Inr s) = template_accepts k vs)
   \<and> convert_argument self Other = Inr VNone
   \<and> format_val VNone = ''None''"
  using dispatch_accepts [of self k vs] by simp

theorem malformed_arguments_witness:
  "convert_arguments (Renderer False) [Expr (Expression (OTHER_KIND ''NAME'') [])] = Inl KeyError
   \<and> render (Renderer False) (Expression INVERSE [Expr (Expression (OTHER_KIND ''NAME'') [])])
        = Inl KeyError
   \<and> convert_arguments (Renderer False) [Lit ''a'', Lit ''b''] = Inr [VStr ''a'', VStr ''b'']
   \<and> \<not> template_accepts ANYWHERE [VStr ''a'', VStr ''b'']
   \<and> \<not> (\<exists>s. render (Renderer False) (Expression ANYWHERE [Lit ''a'', Lit ''b'']) = Inr s)
   \<and> template_accepts EQUALITY [VStr ''a'', VStr ''b'']
   \<and> (\<exists>s. render (Renderer False) (Expression EQUALITY [Lit ''a'', Lit ''b'']) = Inr s)"
  using malformed_arguments [of "Renderer False" "[Expr (Expression (OTHER_KIND ''NAME'') [])]"
          KeyError INVERSE "[]"]
        malformed_arguments [of "Renderer False" "[Lit ''a'', Lit ''b'']" KeyError ANYWHERE
          "[VStr ''a'', VStr ''b'']"]
        malformed_arguments [of "Renderer False" "[Lit ''a'', Lit ''b'']" KeyError EQUALITY
          "[VStr ''a'', VStr ''b'']"]
  by (simp add: dispatch_simps)

end
